theory Spec2Isabelle
  imports Main
begin

section \<open>The SIP user card (src/sip-user-card.ts)\<close>

text \<open>
  The card is a custom element of a dashboard. Its host calls \<open>setConfig\<close> with the
  configuration of the card whenever the dashboard loads or the configuration changes,
  the browser calls \<open>connectedCallback\<close> and \<open>disconnectedCallback\<close> when the element
  enters and leaves the document, and the rendering library calls \<open>render\<close>.

  The methods are embedded as functions on an explicit state: the object \<open>sipCore\<close>
  the file imports, the event listener list of \<open>window\<close>, and the fields of the card
  itself. A method that can throw returns the error, or the unit value, together with the
  state it leaves behind, so that what a failing call has already changed stays visible.
\<close>

subsection \<open>Data\<close>

text \<open>
  A field of a configuration object holds a string at run time, or nothing at all when the
  key is missing from the dashboard's YAML (\<open>undefined\<close>): \<open>None\<close> is the missing field.
  The interface declares \<open>extension\<close> and \<open>password\<close> as strings and \<open>display_name\<close> as
  optional, and the guard of \<open>setConfig\<close> tests the first two for being missing.
\<close>

record SIPUserCardConfig =
  extension :: "string option"
  password :: "string option"
  display_name :: "string option"

text \<open>\<open>new Error(message)\<close>.\<close>

datatype error = Error string

text \<open>
  The calls the card makes on \<open>sipCore\<close> that change something: the assignment to
  \<open>sipCore.ForceUser\<close> with the object assigned, and \<open>sipCore.applyForceUser()\<close>.
\<close>

datatype sipCore_call = SetForceUser SIPUserCardConfig | ApplyForceUser

text \<open>
  Modelled from the spec: the object \<open>sipCore\<close> of \<open>./sip-core\<close>, which is not among
  the source files. It is the override state store and the face of the registration
  subsystem: one persisted slot \<open>ForceUser\<close> holding the forced identity or nothing, the
  live flag \<open>registered\<close>, and, for counting and ordering, the list \<open>calls\<close> of the
  state-changing calls made on it so far, oldest first. The object the card assigns to
  \<open>ForceUser\<close> has the three fields of a configuration.
\<close>

record sipCore_state =
  ForceUser :: "SIPUserCardConfig option"
  registered :: bool
  calls :: "sipCore_call list"

text \<open>
  The fields of the card: \<open>config\<close> (\<open>undefined\<close> until the first successful
  \<open>setConfig\<close>), the arrow function \<open>updateHandler\<close>, created once per instance and
  represented by its identity, and whether an update of the display has been requested and
  not yet performed (\<open>isUpdatePending\<close> of the rendering library).
\<close>

record SIPUserCard =
  config :: "SIPUserCardConfig option"
  updateHandler :: nat
  isUpdatePending :: bool

text \<open>
  The whole state: \<open>sipCore\<close>, the event listener list of \<open>window\<close> (event type and
  callback of each listener, in the order of registration), and the card, which is
  \<open>this\<close> in the methods.
\<close>

record state =
  sipCore :: sipCore_state
  window :: "(string \<times> nat) list"
  self :: SIPUserCard

subsection \<open>The collaborators\<close>

text \<open>
  Modelled from the spec: the getter of \<open>sipCore.ForceUser\<close> (the store's \<open>read\<close>), which
  returns the persisted identity or nothing.
\<close>

definition get_ForceUser :: "sipCore_state \<Rightarrow> SIPUserCardConfig option" where
  "get_ForceUser c = ForceUser c"

text \<open>
  Modelled from the spec: the setter of \<open>sipCore.ForceUser\<close> (the store's \<open>write\<close>), which
  persists the identity as one record.
\<close>

definition set_ForceUser :: "SIPUserCardConfig \<Rightarrow> sipCore_state \<Rightarrow> sipCore_state" where
  "set_ForceUser v c = c\<lparr>ForceUser := Some v, calls := calls c @ [SetForceUser v]\<rparr>"

text \<open>
  Modelled from the spec: \<open>sipCore.applyForceUser()\<close>, which asks the registration
  subsystem to restart its session under the persisted identity and returns at once; the
  outcome shows later, in \<open>registered\<close>. The slot is not changed.
\<close>

definition applyForceUser :: "sipCore_state \<Rightarrow> sipCore_state" where
  "applyForceUser c = c\<lparr>calls := calls c @ [ApplyForceUser]\<rparr>"

text \<open>
  \<open>window.addEventListener\<close> and \<open>window.removeEventListener\<close> of the DOM: a listener
  whose type and callback are already in the list is not added again, and removing takes
  the listener with that type and callback out of the list, if there is one.
\<close>

definition addEventListener :: "string \<Rightarrow> nat \<Rightarrow> (string \<times> nat) list \<Rightarrow> (string \<times> nat) list" where
  "addEventListener ty cb ls = (if (ty, cb) \<in> set ls then ls else ls @ [(ty, cb)])"

definition removeEventListener :: "string \<Rightarrow> nat \<Rightarrow> (string \<times> nat) list \<Rightarrow> (string \<times> nat) list" where
  "removeEventListener ty cb ls = remove1 (ty, cb) ls"

text \<open>\<open>this.requestUpdate()\<close> of the rendering library: an update becomes pending.\<close>

definition requestUpdate :: "SIPUserCard \<Rightarrow> SIPUserCard" where
  "requestUpdate this = this\<lparr>isUpdatePending := True\<rparr>"

subsection \<open>The methods of the card\<close>

text \<open>\<open>!v\<close> for a field \<open>v\<close>: true when the field is missing or the empty string.\<close>

definition falsy :: "string option \<Rightarrow> bool" where
  "falsy v = (case v of None \<Rightarrow> True | Some s \<Rightarrow> s = [])"

text \<open>
  \<open>setConfig(config)\<close>. The two guards throw before anything is read or written. The
  message written to the console when the credentials changed is not part of the state.
  The field \<open>config\<close> is declared with the decorator \<open>@state()\<close>, so the assignment
  \<open>this.config = config\<close> stores the object and then calls \<open>requestUpdate\<close>; the library
  goes on to schedule the update when the object assigned is not the one already held, and
  the object the host passes is taken to be a new one at every call.
\<close>

definition setConfig :: "SIPUserCardConfig \<Rightarrow> state \<Rightarrow> (error + unit) \<times> state" where
  "setConfig cfg s =
     (if falsy (extension cfg) then
        (Inl (Error ''sip-user-card: 'extension' is required''), s)
      else if falsy (password cfg) then
        (Inl (Error ''sip-user-card: 'password' is required''), s)
      else
        let currentForceUser = get_ForceUser (sipCore s);
            configChanged =
              (case currentForceUser of
                 None \<Rightarrow> True
               | Some cur \<Rightarrow> extension cur \<noteq> extension cfg \<or> password cur \<noteq> password cfg);
            s1 =
              (if configChanged then
                 s\<lparr>sipCore :=
                     applyForceUser
                       (set_ForceUser
                          \<lparr>extension = extension cfg,
                           password = password cfg,
                           display_name = display_name cfg\<rparr>
                          (sipCore s))\<rparr>
               else s)
        in (Inr (), s1\<lparr>self := requestUpdate ((self s1)\<lparr>config := Some cfg\<rparr>)\<rparr>))"

text \<open>\<open>getStubConfig()\<close>.\<close>

definition getStubConfig :: SIPUserCardConfig where
  "getStubConfig =
     \<lparr>extension = Some ''100'',
      password = Some ''mypassword'',
      display_name = Some ''Front Door Panel''\<rparr>"

text \<open>
  \<open>connectedCallback()\<close> and \<open>disconnectedCallback()\<close>. The calls to the superclass
  belong to the rendering library and touch neither \<open>sipCore\<close> nor the listeners of
  \<open>window\<close>.
\<close>

definition connectedCallback :: "state \<Rightarrow> state" where
  "connectedCallback s =
     s\<lparr>window := addEventListener ''sipcore-update'' (updateHandler (self s)) (window s)\<rparr>"

definition disconnectedCallback :: "state \<Rightarrow> state" where
  "disconnectedCallback s =
     s\<lparr>window := removeEventListener ''sipcore-update'' (updateHandler (self s)) (window s)\<rparr>"

text \<open>The body of the arrow function \<open>updateHandler\<close>.\<close>

definition updateHandler_call :: "state \<Rightarrow> state" where
  "updateHandler_call s = s\<lparr>self := requestUpdate (self s)\<rparr>"

text \<open>
  \<open>render()\<close>. The result is the template with its four holes filled: the class of the
  dot, the name, the extension and the word for the status.
\<close>

record TemplateResult =
  dot :: string
  name :: string
  ext :: string
  status :: string

definition render :: "state \<Rightarrow> TemplateResult" where
  "render s =
     (let registered = registered (sipCore s);
          ext = (case config (self s) of
                   None \<Rightarrow> ''?''
                 | Some cfg \<Rightarrow> (case extension cfg of None \<Rightarrow> ''?'' | Some e \<Rightarrow> e));
          name = (case config (self s) of
                    None \<Rightarrow> ext
                  | Some cfg \<Rightarrow> (case display_name cfg of None \<Rightarrow> ext | Some n \<Rightarrow> n))
      in \<lparr>dot = (if registered then ''registered'' else ''unregistered''),
          name = name,
          ext = ext,
          status = (if registered then ''Registered'' else ''Unregistered'')\<rparr>)"

subsection \<open>The environment of the card\<close>

text \<open>
  Modelled from the spec: the notification "registration status changed", which carries
  no payload. \<open>sipCore\<close> broadcasts it as an event on \<open>window\<close>, and dispatching an event
  calls, in order, the callback of every listener registered for its type. A callback that
  is the \<open>updateHandler\<close> of the card runs its body; the callbacks of other objects are
  not part of the file and are taken to leave \<open>sipCore\<close>, the listeners and the card alone.
\<close>

definition invoke :: "nat \<Rightarrow> state \<Rightarrow> state" where
  "invoke cb s = (if cb = updateHandler (self s) then updateHandler_call s else s)"

definition dispatchEvent :: "string \<Rightarrow> state \<Rightarrow> state" where
  "dispatchEvent ty s = fold (\<lambda>l. if fst l = ty then invoke (snd l) else id) (window s) s"

text \<open>
  The browser calls \<open>connectedCallback\<close> when the element enters the document and
  \<open>disconnectedCallback\<close> when it leaves. A life of the element is a list of such calls,
  run from left to right by \<open>fold callback\<close>; it is \<open>alternating e\<close> when the calls take
  turns, starting with \<open>e\<close>.
\<close>

datatype lifecycle = Connected | Disconnected

fun callback :: "lifecycle \<Rightarrow> state \<Rightarrow> state" where
  "callback Connected s = connectedCallback s"
| "callback Disconnected s = disconnectedCallback s"

fun alternating :: "lifecycle \<Rightarrow> lifecycle list \<Rightarrow> bool" where
  "alternating e [] = True"
| "alternating e (x # xs) =
     (x = e \<and> alternating (case e of Connected \<Rightarrow> Disconnected | Disconnected \<Rightarrow> Connected) xs)"

subsection \<open>What is observed\<close>

text \<open>
  The number of assignments to \<open>sipCore.ForceUser\<close> and of calls of
  \<open>sipCore.applyForceUser()\<close> made so far, and the number of listeners on \<open>window\<close> that
  are the \<open>updateHandler\<close> of the card registered for the notification.
\<close>

fun is_write :: "sipCore_call \<Rightarrow> bool" where
  "is_write (SetForceUser v) = True"
| "is_write ApplyForceUser = False"

fun is_apply :: "sipCore_call \<Rightarrow> bool" where
  "is_apply (SetForceUser v) = False"
| "is_apply ApplyForceUser = True"

definition writes :: "state \<Rightarrow> nat" where
  "writes s = length (filter is_write (calls (sipCore s)))"

definition applies :: "state \<Rightarrow> nat" where
  "applies s = length (filter is_apply (calls (sipCore s)))"

definition subscriptions :: "state \<Rightarrow> nat" where
  "subscriptions s = count_list (window s) (''sipcore-update'', updateHandler (self s))"

section \<open>The two ways through setConfig\<close>

text \<open>
  With both guards passed, \<open>setConfig\<close> either finds the stored extension and password
  equal to the new ones and only records the configuration on the card, or it assigns the
  new identity, applies it, and records the configuration. Recording requests an update of
  the display either way.
\<close>

lemma setConfig_unchanged:
  assumes "\<not> falsy (extension cfg)" and "\<not> falsy (password cfg)"
    and "ForceUser (sipCore s) = Some cur"
    and "extension cur = extension cfg" and "password cur = password cfg"
  shows "setConfig cfg s = (Inr (), s\<lparr>self := requestUpdate ((self s)\<lparr>config := Some cfg\<rparr>)\<rparr>)"
  using assms by (simp add: setConfig_def get_ForceUser_def)

lemma setConfig_changed:
  assumes "\<not> falsy (extension cfg)" and "\<not> falsy (password cfg)"
    and "case ForceUser (sipCore s) of None \<Rightarrow> True
         | Some cur \<Rightarrow> extension cur \<noteq> extension cfg \<or> password cur \<noteq> password cfg"
  shows "setConfig cfg s =
     (Inr (),
      s\<lparr>sipCore := (sipCore s)
           \<lparr>ForceUser := Some \<lparr>extension = extension cfg, password = password cfg,
                               display_name = display_name cfg\<rparr>,
            calls := calls (sipCore s) @
              [SetForceUser \<lparr>extension = extension cfg, password = password cfg,
                             display_name = display_name cfg\<rparr>, ApplyForceUser]\<rparr>,
        self := requestUpdate ((self s)\<lparr>config := Some cfg\<rparr>)\<rparr>)"
  using assms
  by (simp add: setConfig_def get_ForceUser_def set_ForceUser_def applyForceUser_def Let_def)

lemma setConfig_cases:
  assumes "\<not> falsy (extension cfg)" and "\<not> falsy (password cfg)"
  shows "fst (setConfig cfg s) = Inr () \<and>
    sipCore (snd (setConfig cfg s)) =
      (if (case ForceUser (sipCore s) of
             None \<Rightarrow> True
           | Some cur \<Rightarrow> extension cur \<noteq> extension cfg \<or> password cur \<noteq> password cfg)
       then (sipCore s)
           \<lparr>ForceUser := Some \<lparr>extension = extension cfg, password = password cfg,
                               display_name = display_name cfg\<rparr>,
            calls := calls (sipCore s) @
              [SetForceUser \<lparr>extension = extension cfg, password = password cfg,
                             display_name = display_name cfg\<rparr>, ApplyForceUser]\<rparr>
       else sipCore s)"
proof (cases "case ForceUser (sipCore s) of None \<Rightarrow> True
         | Some cur \<Rightarrow> extension cur \<noteq> extension cfg \<or> password cur \<noteq> password cfg")
  case True
  with assms show ?thesis by (simp add: setConfig_changed)
next
  case False
  then obtain cur where "ForceUser (sipCore s) = Some cur"
    "extension cur = extension cfg" "password cur = password cfg"
    by (auto split: option.splits)
  with assms False show ?thesis by (simp add: setConfig_unchanged)
qed

section \<open>Listeners and notifications\<close>

text \<open>
  Dispatching a notification changes nothing but the pending flag of the card, and sets it
  exactly when the card's handler is among the listeners for the type.
\<close>

lemma fold_dispatch_frame:
  "sipCore (fold (\<lambda>l. if fst l = ty then invoke (snd l) else id) ls s) = sipCore s \<and>
   window (fold (\<lambda>l. if fst l = ty then invoke (snd l) else id) ls s) = window s \<and>
   config (self (fold (\<lambda>l. if fst l = ty then invoke (snd l) else id) ls s)) = config (self s) \<and>
   updateHandler (self (fold (\<lambda>l. if fst l = ty then invoke (snd l) else id) ls s)) =
     updateHandler (self s)"
  by (induction ls arbitrary: s)
     (simp_all add: invoke_def updateHandler_call_def requestUpdate_def)

lemma fold_dispatch_pending:
  "isUpdatePending (self (fold (\<lambda>l. if fst l = ty then invoke (snd l) else id) ls s)) =
     (isUpdatePending (self s) \<or> (ty, updateHandler (self s)) \<in> set ls)"
proof (induction ls arbitrary: s)
  case Nil
  then show ?case by simp
next
  case (Cons l ls)
  obtain t cb where l: "l = (t, cb)" by (cases l)
  show ?case
    by (auto simp: Cons l invoke_def updateHandler_call_def requestUpdate_def)
qed

text \<open>
  A life of the element only changes the listeners of \<open>window\<close>, and what it does to them
  is a fold over the list itself. Taking turns, the handler is appended and taken out again.
\<close>

lemma fold_callback:
  "updateHandler (self s) = h \<Longrightarrow>
   fold callback es s =
     s\<lparr>window := fold (\<lambda>e ls. case e of
                          Connected \<Rightarrow> addEventListener ''sipcore-update'' h ls
                        | Disconnected \<Rightarrow> removeEventListener ''sipcore-update'' h ls)
                   es (window s)\<rparr>"
proof (induction es arbitrary: s)
  case Nil
  then show ?case by simp
next
  case (Cons e es)
  show ?case
    by (cases e) (simp_all add: Cons connectedCallback_def disconnectedCallback_def)
qed

lemma run_alternating:
  assumes "(ty, h) \<notin> set w"
  shows "(alternating Connected es \<longrightarrow>
            fold (\<lambda>e ls. case e of Connected \<Rightarrow> addEventListener ty h ls
                               | Disconnected \<Rightarrow> removeEventListener ty h ls) es w =
            (if even (length es) then w else w @ [(ty, h)])) \<and>
         (alternating Disconnected es \<longrightarrow>
            fold (\<lambda>e ls. case e of Connected \<Rightarrow> addEventListener ty h ls
                               | Disconnected \<Rightarrow> removeEventListener ty h ls) es (w @ [(ty, h)]) =
            (if even (length es) then w @ [(ty, h)] else w))"
  using assms
  by (induction es)
     (auto simp: addEventListener_def removeEventListener_def remove1_append)

section \<open>Properties\<close>

subsection \<open>Submitting a configuration\<close>

text \<open>
  C1, as amended. Let a configuration with a non-empty extension and a non-empty password
  be submitted, and then a second one with the same extension and password (the display
  name may differ). Both calls return normally. The second call performs no write and no
  apply and leaves \<open>sipCore\<close> as the first call left it. Over the two calls together there
  is exactly one write and exactly one apply when, before the first call, no identity was
  stored or the stored extension or password differed from the submitted one, and there is
  no write and no apply when the stored identity already had that extension and password.
\<close>

theorem C1_second_submit_silent:
  assumes "\<not> falsy (extension cfg)" and "\<not> falsy (password cfg)"
    and "extension cfg' = extension cfg" and "password cfg' = password cfg"
  shows "fst (setConfig cfg s) = Inr () \<and>
         fst (setConfig cfg' (snd (setConfig cfg s))) = Inr () \<and>
         sipCore (snd (setConfig cfg' (snd (setConfig cfg s)))) = sipCore (snd (setConfig cfg s)) \<and>
         writes (snd (setConfig cfg' (snd (setConfig cfg s)))) =
           writes s +
           (if (case ForceUser (sipCore s) of
                  None \<Rightarrow> True
                | Some cur \<Rightarrow> extension cur \<noteq> extension cfg \<or> password cur \<noteq> password cfg)
            then 1 else 0) \<and>
         applies (snd (setConfig cfg' (snd (setConfig cfg s)))) =
           applies s +
           (if (case ForceUser (sipCore s) of
                  None \<Rightarrow> True
                | Some cur \<Rightarrow> extension cur \<noteq> extension cfg \<or> password cur \<noteq> password cfg)
            then 1 else 0)"
proof -
  let ?s1 = "snd (setConfig cfg s)"
  let ?changed = "case ForceUser (sipCore s) of
                  None \<Rightarrow> True
                | Some cur \<Rightarrow> extension cur \<noteq> extension cfg \<or> password cur \<noteq> password cfg"
  note first = setConfig_cases [OF assms(1,2), of s]
  have v': "\<not> falsy (extension cfg')" "\<not> falsy (password cfg')"
    using assms by simp_all
  have "\<exists>cur. ForceUser (sipCore ?s1) = Some cur \<and> extension cur = extension cfg' \<and>
          password cur = password cfg'"
    using first assms(3,4) by (cases ?changed) (auto split: option.splits)
  then obtain cur where cur: "ForceUser (sipCore ?s1) = Some cur"
    "extension cur = extension cfg'" "password cur = password cfg'"
    by blast
  have second: "setConfig cfg' ?s1 =
      (Inr (), ?s1\<lparr>self := requestUpdate ((self ?s1)\<lparr>config := Some cfg'\<rparr>)\<rparr>)"
    using v' cur by (rule setConfig_unchanged)
  have w: "writes ?s1 = writes s + (if ?changed then 1 else 0)"
    using first by (simp add: writes_def)
  have a: "applies ?s1 = applies s + (if ?changed then 1 else 0)"
    using first by (simp add: applies_def)
  from first second w a show ?thesis by (simp add: writes_def applies_def)
qed

text \<open>
  On an empty store, \<open>100\<close> with \<open>mypw\<close> and then the same with the label \<open>Lobby\<close>: one
  write and one apply in all.
\<close>

theorem C1_second_submit_silent_witness:
  "writes (snd (setConfig \<lparr>extension = Some ''100'', password = Some ''mypw'',
                           display_name = Some ''Lobby''\<rparr>
            (snd (setConfig \<lparr>extension = Some ''100'', password = Some ''mypw'',
                             display_name = None\<rparr>
              \<lparr>sipCore = \<lparr>ForceUser = None, registered = False, calls = []\<rparr>, window = [],
               self = \<lparr>config = None, updateHandler = 0, isUpdatePending = False\<rparr>\<rparr>)))) = 1 \<and>
   applies (snd (setConfig \<lparr>extension = Some ''100'', password = Some ''mypw'',
                            display_name = Some ''Lobby''\<rparr>
            (snd (setConfig \<lparr>extension = Some ''100'', password = Some ''mypw'',
                             display_name = None\<rparr>
              \<lparr>sipCore = \<lparr>ForceUser = None, registered = False, calls = []\<rparr>, window = [],
               self = \<lparr>config = None, updateHandler = 0, isUpdatePending = False\<rparr>\<rparr>)))) = 1"
proof -
  let ?s = "\<lparr>sipCore = \<lparr>ForceUser = None, registered = False, calls = []\<rparr>, window = [],
             self = \<lparr>config = None, updateHandler = 0, isUpdatePending = False\<rparr>\<rparr>"
  have none_yet: "writes ?s = 0" "applies ?s = 0"
    by (simp_all add: writes_def applies_def)
  show ?thesis
    using none_yet C1_second_submit_silent
      [where cfg = "\<lparr>extension = Some ''100'', password = Some ''mypw'', display_name = None\<rparr>"
         and cfg' = "\<lparr>extension = Some ''100'', password = Some ''mypw'',
                      display_name = Some ''Lobby''\<rparr>"
         and s = ?s]
    by (simp add: falsy_def)
qed

text \<open>
  C1 as it is written asks for exactly one write and one apply over any two such calls.
  When the store already holds \<open>100\<close> with \<open>mypw\<close>, as it does after a reload of the
  dashboard, two calls with that extension and password both return normally and perform
  no write and no apply at all.
\<close>

theorem C1_exactly_one_write_counterexample:
  "fst (setConfig \<lparr>extension = Some ''100'', password = Some ''mypw'', display_name = None\<rparr>
     \<lparr>sipCore = \<lparr>ForceUser = Some \<lparr>extension = Some ''100'', password = Some ''mypw'',
                                    display_name = None\<rparr>,
                 registered = True, calls = []\<rparr>,
      window = [],
      self = \<lparr>config = None, updateHandler = 0, isUpdatePending = False\<rparr>\<rparr>) = Inr () \<and>
   writes (snd (setConfig \<lparr>extension = Some ''100'', password = Some ''mypw'',
                           display_name = None\<rparr>
     (snd (setConfig \<lparr>extension = Some ''100'', password = Some ''mypw'', display_name = None\<rparr>
        \<lparr>sipCore = \<lparr>ForceUser = Some \<lparr>extension = Some ''100'', password = Some ''mypw'',
                                       display_name = None\<rparr>,
                    registered = True, calls = []\<rparr>,
         window = [],
         self = \<lparr>config = None, updateHandler = 0, isUpdatePending = False\<rparr>\<rparr>)))) = 0 \<and>
   applies (snd (setConfig \<lparr>extension = Some ''100'', password = Some ''mypw'',
                            display_name = None\<rparr>
     (snd (setConfig \<lparr>extension = Some ''100'', password = Some ''mypw'', display_name = None\<rparr>
        \<lparr>sipCore = \<lparr>ForceUser = Some \<lparr>extension = Some ''100'', password = Some ''mypw'',
                                       display_name = None\<rparr>,
                    registered = True, calls = []\<rparr>,
         window = [],
         self = \<lparr>config = None, updateHandler = 0, isUpdatePending = False\<rparr>\<rparr>)))) \<noteq> 1"
  by (simp add: setConfig_def get_ForceUser_def falsy_def writes_def applies_def)

text \<open>
  C2. For a configuration with a non-empty extension and a non-empty password,
  \<open>setConfig\<close> returns normally, and the calls it makes on \<open>sipCore\<close> are: the assignment
  of the new identity, with the extension, the password and the display name of the
  configuration, followed by one \<open>applyForceUser()\<close>, if no identity is stored or the stored
  extension or the stored password differs from the configuration's; and none otherwise.
  In the first case the store holds that full new identity afterwards, and a read returns
  it; in the second it holds the identity it held before. The flag \<open>registered\<close> is as
  before in both.
\<close>

theorem C2_change_decision:
  assumes "\<not> falsy (extension cfg)" and "\<not> falsy (password cfg)"
  shows "fst (setConfig cfg s) = Inr () \<and>
    calls (sipCore (snd (setConfig cfg s))) =
      calls (sipCore s) @
      (if (case ForceUser (sipCore s) of
             None \<Rightarrow> True
           | Some cur \<Rightarrow> extension cur \<noteq> extension cfg \<or> password cur \<noteq> password cfg)
       then [SetForceUser \<lparr>extension = extension cfg, password = password cfg,
                            display_name = display_name cfg\<rparr>,
             ApplyForceUser]
       else []) \<and>
    ForceUser (sipCore (snd (setConfig cfg s))) =
      (if (case ForceUser (sipCore s) of
             None \<Rightarrow> True
           | Some cur \<Rightarrow> extension cur \<noteq> extension cfg \<or> password cur \<noteq> password cfg)
       then Some \<lparr>extension = extension cfg, password = password cfg,
                  display_name = display_name cfg\<rparr>
       else ForceUser (sipCore s)) \<and>
    get_ForceUser (sipCore (snd (setConfig cfg s))) =
      ForceUser (sipCore (snd (setConfig cfg s))) \<and>
    registered (sipCore (snd (setConfig cfg s))) = registered (sipCore s)"
  using setConfig_cases [OF assms, of s] by (simp add: get_ForceUser_def)

text \<open>A changed password on a stored identity: the write, then the apply.\<close>

theorem C2_change_decision_witness:
  "calls (sipCore (snd (setConfig
      \<lparr>extension = Some ''100'', password = Some ''newpw'', display_name = Some ''Lobby''\<rparr>
      \<lparr>sipCore = \<lparr>ForceUser = Some \<lparr>extension = Some ''100'', password = Some ''mypw'',
                                     display_name = None\<rparr>,
                  registered = True, calls = []\<rparr>,
       window = [],
       self = \<lparr>config = None, updateHandler = 0, isUpdatePending = False\<rparr>\<rparr>))) =
   [SetForceUser \<lparr>extension = Some ''100'', password = Some ''newpw'',
                   display_name = Some ''Lobby''\<rparr>,
    ApplyForceUser] \<and>
   ForceUser (sipCore (snd (setConfig
      \<lparr>extension = Some ''100'', password = Some ''newpw'', display_name = Some ''Lobby''\<rparr>
      \<lparr>sipCore = \<lparr>ForceUser = Some \<lparr>extension = Some ''100'', password = Some ''mypw'',
                                     display_name = None\<rparr>,
                  registered = True, calls = []\<rparr>,
       window = [],
       self = \<lparr>config = None, updateHandler = 0, isUpdatePending = False\<rparr>\<rparr>))) =
   Some \<lparr>extension = Some ''100'', password = Some ''newpw'', display_name = Some ''Lobby''\<rparr>"
  using C2_change_decision
    [where cfg = "\<lparr>extension = Some ''100'', password = Some ''newpw'',
                   display_name = Some ''Lobby''\<rparr>"
       and s = "\<lparr>sipCore = \<lparr>ForceUser = Some \<lparr>extension = Some ''100'',
                                               password = Some ''mypw'', display_name = None\<rparr>,
                            registered = True, calls = []\<rparr>,
                 window = [],
                 self = \<lparr>config = None, updateHandler = 0, isUpdatePending = False\<rparr>\<rparr>"]
  by (simp add: falsy_def)

text \<open>
  C3. For a configuration whose extension is missing or empty, or whose password is
  missing or empty, \<open>setConfig\<close> throws an error whose message names the field (the
  extension when both are at fault), and the whole state is as before the call: nothing
  was written to \<open>sipCore\<close> and nothing applied.
\<close>

theorem C3_validation_failure:
  assumes "falsy (extension cfg) \<or> falsy (password cfg)"
  shows "setConfig cfg s =
    (Inl (Error (if falsy (extension cfg)
                 then ''sip-user-card: 'extension' is required''
                 else ''sip-user-card: 'password' is required'')), s)"
  using assms by (auto simp: setConfig_def)

text \<open>An empty extension, and a missing password.\<close>

theorem C3_validation_failure_witness:
  "setConfig \<lparr>extension = Some '''', password = Some ''x'', display_name = None\<rparr>
     \<lparr>sipCore = \<lparr>ForceUser = None, registered = False, calls = []\<rparr>, window = [],
      self = \<lparr>config = None, updateHandler = 0, isUpdatePending = False\<rparr>\<rparr> =
   (Inl (Error ''sip-user-card: 'extension' is required''),
    \<lparr>sipCore = \<lparr>ForceUser = None, registered = False, calls = []\<rparr>, window = [],
     self = \<lparr>config = None, updateHandler = 0, isUpdatePending = False\<rparr>\<rparr>)
   \<and>
   setConfig \<lparr>extension = Some ''x'', password = None, display_name = None\<rparr>
     \<lparr>sipCore = \<lparr>ForceUser = None, registered = False, calls = []\<rparr>, window = [],
      self = \<lparr>config = None, updateHandler = 0, isUpdatePending = False\<rparr>\<rparr> =
   (Inl (Error ''sip-user-card: 'password' is required''),
    \<lparr>sipCore = \<lparr>ForceUser = None, registered = False, calls = []\<rparr>, window = [],
     self = \<lparr>config = None, updateHandler = 0, isUpdatePending = False\<rparr>\<rparr>)"
  using
    C3_validation_failure
      [where cfg = "\<lparr>extension = Some '''', password = Some ''x'', display_name = None\<rparr>"
         and s = "\<lparr>sipCore = \<lparr>ForceUser = None, registered = False, calls = []\<rparr>, window = [],
                   self = \<lparr>config = None, updateHandler = 0, isUpdatePending = False\<rparr>\<rparr>"]
    C3_validation_failure
      [where cfg = "\<lparr>extension = Some ''x'', password = None, display_name = None\<rparr>"
         and s = "\<lparr>sipCore = \<lparr>ForceUser = None, registered = False, calls = []\<rparr>, window = [],
                   self = \<lparr>config = None, updateHandler = 0, isUpdatePending = False\<rparr>\<rparr>"]
  by (simp add: falsy_def)

text \<open>
  C4. Every call of \<open>setConfig\<close> with a non-empty extension and a non-empty password
  records the configuration on the card, whether or not a change was detected, and the
  next \<open>render\<close> shows its extension and, as the name, its display name (the extension
  when it has none). When the stored identity has the same extension and password, the
  call makes no write and no apply: \<open>sipCore\<close> is exactly as before, whatever the display
  name.
\<close>

theorem C4_label_independence:
  assumes "extension cfg = Some e" and "e \<noteq> []" and "\<not> falsy (password cfg)"
  shows "config (self (snd (setConfig cfg s))) = Some cfg \<and>
         ext (render (snd (setConfig cfg s))) = e \<and>
         name (render (snd (setConfig cfg s))) =
           (case display_name cfg of None \<Rightarrow> e | Some n \<Rightarrow> n) \<and>
         (\<forall>cur. ForceUser (sipCore s) = Some cur \<and> extension cur = extension cfg \<and>
                password cur = password cfg \<longrightarrow>
              sipCore (snd (setConfig cfg s)) = sipCore s)"
proof -
  have v: "\<not> falsy (extension cfg)" using assms by (simp add: falsy_def)
  have c: "config (self (snd (setConfig cfg s))) = Some cfg"
    using v assms(3) by (simp add: setConfig_def requestUpdate_def Let_def)
  have r: "ext (render (snd (setConfig cfg s))) = e \<and>
         name (render (snd (setConfig cfg s))) =
           (case display_name cfg of None \<Rightarrow> e | Some n \<Rightarrow> n)"
    using c assms(1) by (simp add: render_def Let_def)
  have u: "\<forall>cur. ForceUser (sipCore s) = Some cur \<and> extension cur = extension cfg \<and>
                password cur = password cfg \<longrightarrow>
              sipCore (snd (setConfig cfg s)) = sipCore s"
    using v assms(3) by (simp add: setConfig_unchanged)
  from c r u show ?thesis by simp
qed

text \<open>
  The store holds \<open>100\<close> with \<open>mypw\<close> and no label; the same credentials arrive with the
  label \<open>Lobby\<close>.
\<close>

theorem C4_label_independence_witness:
  "name (render (snd (setConfig
      \<lparr>extension = Some ''100'', password = Some ''mypw'', display_name = Some ''Lobby''\<rparr>
      \<lparr>sipCore = \<lparr>ForceUser = Some \<lparr>extension = Some ''100'', password = Some ''mypw'',
                                     display_name = None\<rparr>,
                  registered = True,
                  calls = [SetForceUser \<lparr>extension = Some ''100'', password = Some ''mypw'',
                                         display_name = None\<rparr>, ApplyForceUser]\<rparr>,
       window = [],
       self = \<lparr>config = Some \<lparr>extension = Some ''100'', password = Some ''mypw'',
                               display_name = None\<rparr>,
               updateHandler = 0, isUpdatePending = False\<rparr>\<rparr>))) = ''Lobby'' \<and>
   sipCore (snd (setConfig
      \<lparr>extension = Some ''100'', password = Some ''mypw'', display_name = Some ''Lobby''\<rparr>
      \<lparr>sipCore = \<lparr>ForceUser = Some \<lparr>extension = Some ''100'', password = Some ''mypw'',
                                     display_name = None\<rparr>,
                  registered = True,
                  calls = [SetForceUser \<lparr>extension = Some ''100'', password = Some ''mypw'',
                                         display_name = None\<rparr>, ApplyForceUser]\<rparr>,
       window = [],
       self = \<lparr>config = Some \<lparr>extension = Some ''100'', password = Some ''mypw'',
                               display_name = None\<rparr>,
               updateHandler = 0, isUpdatePending = False\<rparr>\<rparr>)) =
     \<lparr>ForceUser = Some \<lparr>extension = Some ''100'', password = Some ''mypw'',
                         display_name = None\<rparr>,
      registered = True,
      calls = [SetForceUser \<lparr>extension = Some ''100'', password = Some ''mypw'',
                             display_name = None\<rparr>, ApplyForceUser]\<rparr>"
  using C4_label_independence
    [where cfg = "\<lparr>extension = Some ''100'', password = Some ''mypw'',
                   display_name = Some ''Lobby''\<rparr>"
       and e = "''100''"
       and s = "\<lparr>sipCore = \<lparr>ForceUser = Some \<lparr>extension = Some ''100'',
                                               password = Some ''mypw'', display_name = None\<rparr>,
                            registered = True,
                            calls = [SetForceUser \<lparr>extension = Some ''100'',
                                                   password = Some ''mypw'',
                                                   display_name = None\<rparr>, ApplyForceUser]\<rparr>,
                 window = [],
                 self = \<lparr>config = Some \<lparr>extension = Some ''100'', password = Some ''mypw'',
                                         display_name = None\<rparr>,
                         updateHandler = 0, isUpdatePending = False\<rparr>\<rparr>"]
  by (simp add: falsy_def)

text \<open>
  C5. When the configuration recorded on the card has no display name, the name \<open>render\<close>
  shows is the extension it shows, which is the extension of the configuration.
\<close>

theorem C5_display_name_default:
  assumes "config (self s) = Some cfg" and "display_name cfg = None"
  shows "name (render s) = ext (render s) \<and>
         name (render s) = (case extension cfg of None \<Rightarrow> ''?'' | Some e \<Rightarrow> e)"
  using assms by (simp add: render_def Let_def)

text \<open>The card after \<open>100\<close> with \<open>mypw\<close> and no label was accepted.\<close>

theorem C5_display_name_default_witness:
  "name (render
     \<lparr>sipCore = \<lparr>ForceUser = None, registered = False, calls = []\<rparr>, window = [],
      self = \<lparr>config = Some \<lparr>extension = Some ''100'', password = Some ''mypw'',
                              display_name = None\<rparr>,
              updateHandler = 0, isUpdatePending = False\<rparr>\<rparr>) = ''100''"
  using C5_display_name_default
    [where cfg = "\<lparr>extension = Some ''100'', password = Some ''mypw'', display_name = None\<rparr>"
       and s = "\<lparr>sipCore = \<lparr>ForceUser = None, registered = False, calls = []\<rparr>, window = [],
                 self = \<lparr>config = Some \<lparr>extension = Some ''100'', password = Some ''mypw'',
                                         display_name = None\<rparr>,
                         updateHandler = 0, isUpdatePending = False\<rparr>\<rparr>",
     THEN conjunct2]
  by simp

text \<open>
  C9. The configuration \<open>getStubConfig\<close> returns has a non-empty extension and a
  non-empty password, and \<open>setConfig\<close> called with it returns normally in every state: the
  two guards do not throw.
\<close>

theorem C9_stub_config_valid:
  "\<not> falsy (extension getStubConfig) \<and> \<not> falsy (password getStubConfig) \<and>
   fst (setConfig getStubConfig s) = Inr ()"
  by (simp add: setConfig_def getStubConfig_def falsy_def Let_def)

text \<open>The stub on a card that has nothing stored.\<close>

theorem C9_stub_config_valid_witness:
  "fst (setConfig getStubConfig
     \<lparr>sipCore = \<lparr>ForceUser = None, registered = False, calls = []\<rparr>, window = [],
      self = \<lparr>config = None, updateHandler = 0, isUpdatePending = False\<rparr>\<rparr>) = Inr ()"
  using C9_stub_config_valid
    [where s = "\<lparr>sipCore = \<lparr>ForceUser = None, registered = False, calls = []\<rparr>, window = [],
                 self = \<lparr>config = None, updateHandler = 0, isUpdatePending = False\<rparr>\<rparr>"]
  by simp

text \<open>
  C10. When \<open>setConfig\<close> throws because the extension or the password is missing or
  empty, the configuration recorded on the card is the one recorded before the call, and
  \<open>render\<close> gives what it gave before.
\<close>

theorem C10_display_state_kept_on_error:
  assumes "falsy (extension cfg) \<or> falsy (password cfg)"
  shows "isl (fst (setConfig cfg s)) \<and>
         config (self (snd (setConfig cfg s))) = config (self s) \<and>
         render (snd (setConfig cfg s)) = render s"
  using assms by (auto simp: setConfig_def)

text \<open>
  The card shows \<open>Lobby\<close> and \<open>100\<close>; a configuration with the extension \<open>200\<close>, the label
  \<open>Hall\<close> and an empty password is rejected, and the card still shows \<open>Lobby\<close> and \<open>100\<close>.
\<close>

theorem C10_display_state_kept_on_error_witness:
  "render (snd (setConfig
      \<lparr>extension = Some ''200'', password = Some '''', display_name = Some ''Hall''\<rparr>
      \<lparr>sipCore = \<lparr>ForceUser = Some \<lparr>extension = Some ''100'', password = Some ''mypw'',
                                     display_name = Some ''Lobby''\<rparr>,
                  registered = True, calls = []\<rparr>,
       window = [],
       self = \<lparr>config = Some \<lparr>extension = Some ''100'', password = Some ''mypw'',
                               display_name = Some ''Lobby''\<rparr>,
               updateHandler = 0, isUpdatePending = False\<rparr>\<rparr>)) =
   \<lparr>dot = ''registered'', name = ''Lobby'', ext = ''100'', status = ''Registered''\<rparr>"
proof -
  let ?s = "\<lparr>sipCore = \<lparr>ForceUser = Some \<lparr>extension = Some ''100'', password = Some ''mypw'',
                                           display_name = Some ''Lobby''\<rparr>,
                        registered = True, calls = []\<rparr>,
             window = [],
             self = \<lparr>config = Some \<lparr>extension = Some ''100'', password = Some ''mypw'',
                                     display_name = Some ''Lobby''\<rparr>,
                     updateHandler = 0, isUpdatePending = False\<rparr>\<rparr>"
  have shown: "render ?s =
      \<lparr>dot = ''registered'', name = ''Lobby'', ext = ''100'', status = ''Registered''\<rparr>"
    by (simp add: render_def)
  show ?thesis
    using shown C10_display_state_kept_on_error
      [where cfg = "\<lparr>extension = Some ''200'', password = Some '''',
                     display_name = Some ''Hall''\<rparr>"
         and s = ?s]
    by (simp add: falsy_def)
qed

subsection \<open>Entering and leaving the document\<close>

text \<open>
  C6. \<open>disconnectedCallback\<close> leaves \<open>sipCore\<close> as it was: the stored identity is neither
  cleared nor changed, and no call is made on \<open>sipCore\<close>, so nothing is applied.
\<close>

theorem C6_deactivation_keeps_identity:
  "sipCore (disconnectedCallback s) = sipCore s \<and>
   ForceUser (sipCore (disconnectedCallback s)) = ForceUser (sipCore s) \<and>
   calls (sipCore (disconnectedCallback s)) = calls (sipCore s)"
  by (simp add: disconnectedCallback_def)

text \<open>
  C7. On a card whose handler is not yet a listener of \<open>window\<close>, \<open>connectedCallback\<close>
  adds exactly one listener, the card's \<open>updateHandler\<close> for \<open>sipcore-update\<close>, and
  \<open>disconnectedCallback\<close> after it takes exactly that listener out again. Over any life
  in which the two take turns, starting with \<open>connectedCallback\<close>, the listeners are the
  ones before it when the last call was \<open>disconnectedCallback\<close>, with no subscription of the
  card left, and those plus the one handler when the last call was \<open>connectedCallback\<close>.
\<close>

theorem C7_subscription_pairing:
  assumes "(''sipcore-update'', updateHandler (self s)) \<notin> set (window s)"
  shows "window (connectedCallback s) = window s @ [(''sipcore-update'', updateHandler (self s))] \<and>
         subscriptions (connectedCallback s) = 1 \<and>
         window (disconnectedCallback (connectedCallback s)) = window s \<and>
         subscriptions (disconnectedCallback (connectedCallback s)) = 0 \<and>
         (\<forall>es. alternating Connected es \<longrightarrow>
            window (fold callback es s) =
              (if even (length es) then window s
               else window s @ [(''sipcore-update'', updateHandler (self s))]) \<and>
            subscriptions (fold callback es s) = (if even (length es) then 0 else 1))"
proof -
  let ?l = "(''sipcore-update'', updateHandler (self s))"
  have c0: "count_list (window s) ?l = 0"
    using assms by (simp add: count_list_0_iff)
  have one: "window (connectedCallback s) = window s @ [?l]"
    using assms by (simp add: connectedCallback_def addEventListener_def)
  have two: "window (disconnectedCallback (connectedCallback s)) = window s"
    using assms
    by (simp add: connectedCallback_def disconnectedCallback_def addEventListener_def
        removeEventListener_def remove1_append)
  have seq: "window (fold callback es s) =
              (if even (length es) then window s else window s @ [?l])"
    if "alternating Connected es" for es
    using that run_alternating [OF assms, of es]
    by (simp add: fold_callback [OF refl])
  have cnt: "subscriptions (fold callback es s) = (if even (length es) then 0 else 1)"
    if "alternating Connected es" for es
    using seq [OF that] c0 by (simp add: subscriptions_def fold_callback [OF refl])
  from one two seq cnt c0 show ?thesis
    by (simp add: subscriptions_def connectedCallback_def disconnectedCallback_def)
qed

text \<open>
  Another object listens on \<open>window\<close>; the card enters and leaves the document twice, and
  enters it a third time.
\<close>

theorem C7_subscription_pairing_witness:
  "window (fold callback [Connected, Disconnected, Connected, Disconnected]
     \<lparr>sipCore = \<lparr>ForceUser = None, registered = False, calls = []\<rparr>,
      window = [(''sipcore-update'', 3)],
      self = \<lparr>config = None, updateHandler = 7, isUpdatePending = False\<rparr>\<rparr>) =
     [(''sipcore-update'', 3)] \<and>
   subscriptions (fold callback [Connected, Disconnected, Connected, Disconnected]
     \<lparr>sipCore = \<lparr>ForceUser = None, registered = False, calls = []\<rparr>,
      window = [(''sipcore-update'', 3)],
      self = \<lparr>config = None, updateHandler = 7, isUpdatePending = False\<rparr>\<rparr>) = 0 \<and>
   window (fold callback [Connected, Disconnected, Connected, Disconnected, Connected]
     \<lparr>sipCore = \<lparr>ForceUser = None, registered = False, calls = []\<rparr>,
      window = [(''sipcore-update'', 3)],
      self = \<lparr>config = None, updateHandler = 7, isUpdatePending = False\<rparr>\<rparr>) =
     [(''sipcore-update'', 3), (''sipcore-update'', 7)]"
proof -
  let ?s = "\<lparr>sipCore = \<lparr>ForceUser = None, registered = False, calls = []\<rparr>,
             window = [(''sipcore-update'', 3)],
             self = \<lparr>config = None, updateHandler = 7, isUpdatePending = False\<rparr>\<rparr>"
  have fresh: "(''sipcore-update'', updateHandler (self ?s)) \<notin> set (window ?s)"
    by simp
  have four: "alternating Connected [Connected, Disconnected, Connected, Disconnected]"
    and five: "alternating Connected [Connected, Disconnected, Connected, Disconnected, Connected]"
    by simp_all
  note all = C7_subscription_pairing [OF fresh]
  from all four
  have "window (fold callback [Connected, Disconnected, Connected, Disconnected] ?s) =
          window ?s \<and>
        subscriptions (fold callback [Connected, Disconnected, Connected, Disconnected] ?s) = 0"
    by fastforce
  moreover from all five
  have "window (fold callback [Connected, Disconnected, Connected, Disconnected, Connected] ?s) =
          window ?s @ [(''sipcore-update'', updateHandler (self ?s))]"
    by fastforce
  ultimately show ?thesis by simp
qed

subsection \<open>The status on display\<close>

text \<open>
  C8. While the card's handler is a listener of \<open>window\<close> for \<open>sipcore-update\<close>, the
  notification leaves an update of the display pending, and changes neither \<open>sipCore\<close> nor
  what the card has recorded. \<open>render\<close> takes the status from \<open>sipCore.registered\<close> as it
  is when \<open>render\<close> runs: whatever value \<open>b\<close> the registration subsystem has put there,
  the dot and the word shown are those of \<open>b\<close>, and the name and the extension are the ones
  shown before, with no call of \<open>setConfig\<close> in between.
\<close>

theorem C8_notification_refresh:
  assumes "(''sipcore-update'', updateHandler (self s)) \<in> set (window s)"
  shows "isUpdatePending (self (dispatchEvent ''sipcore-update'' s)) \<and>
         sipCore (dispatchEvent ''sipcore-update'' s) = sipCore s \<and>
         config (self (dispatchEvent ''sipcore-update'' s)) = config (self s) \<and>
         render ((dispatchEvent ''sipcore-update'' s)\<lparr>sipCore := (sipCore s)\<lparr>registered := b\<rparr>\<rparr>) =
           (render s)\<lparr>dot := (if b then ''registered'' else ''unregistered''),
                      status := (if b then ''Registered'' else ''Unregistered'')\<rparr> \<and>
         render (dispatchEvent ''sipcore-update'' (s\<lparr>sipCore := (sipCore s)\<lparr>registered := b\<rparr>\<rparr>)) =
           (render s)\<lparr>dot := (if b then ''registered'' else ''unregistered''),
                      status := (if b then ''Registered'' else ''Unregistered'')\<rparr>"
proof -
  let ?s' = "s\<lparr>sipCore := (sipCore s)\<lparr>registered := b\<rparr>\<rparr>"
  note frame = fold_dispatch_frame [of "''sipcore-update''" "window s" s]
  note frame' = fold_dispatch_frame [of "''sipcore-update''" "window s" ?s']
  have pending: "isUpdatePending (self (dispatchEvent ''sipcore-update'' s))"
    using assms fold_dispatch_pending [of "''sipcore-update''" "window s" s]
    by (simp add: dispatchEvent_def)
  have after: "render ((dispatchEvent ''sipcore-update'' s)\<lparr>sipCore := (sipCore s)\<lparr>registered := b\<rparr>\<rparr>) =
           (render s)\<lparr>dot := (if b then ''registered'' else ''unregistered''),
                      status := (if b then ''Registered'' else ''Unregistered'')\<rparr>"
    using frame by (simp add: dispatchEvent_def render_def Let_def)
  have before: "render (dispatchEvent ''sipcore-update'' ?s') =
           (render s)\<lparr>dot := (if b then ''registered'' else ''unregistered''),
                      status := (if b then ''Registered'' else ''Unregistered'')\<rparr>"
    using frame' by (simp add: dispatchEvent_def render_def Let_def)
  from pending frame after before show ?thesis
    by (simp add: dispatchEvent_def)
qed

text \<open>
  The card shows \<open>Lobby\<close>, \<open>100\<close> and "Unregistered"; the registration succeeds and the
  notification arrives.
\<close>

theorem C8_notification_refresh_witness:
  "isUpdatePending (self (dispatchEvent ''sipcore-update''
     \<lparr>sipCore = \<lparr>ForceUser = None, registered = False, calls = []\<rparr>,
      window = [(''sipcore-update'', 7)],
      self = \<lparr>config = Some \<lparr>extension = Some ''100'', password = Some ''mypw'',
                              display_name = Some ''Lobby''\<rparr>,
              updateHandler = 7, isUpdatePending = False\<rparr>\<rparr>)) \<and>
   render (dispatchEvent ''sipcore-update''
     (\<lparr>sipCore = \<lparr>ForceUser = None, registered = False, calls = []\<rparr>,
       window = [(''sipcore-update'', 7)],
       self = \<lparr>config = Some \<lparr>extension = Some ''100'', password = Some ''mypw'',
                               display_name = Some ''Lobby''\<rparr>,
               updateHandler = 7, isUpdatePending = False\<rparr>\<rparr>
      \<lparr>sipCore := \<lparr>ForceUser = None, registered = False, calls = []\<rparr>\<lparr>registered := True\<rparr>\<rparr>)) =
   \<lparr>dot = ''registered'', name = ''Lobby'', ext = ''100'', status = ''Registered''\<rparr>"
  using C8_notification_refresh
    [where b = True
       and s = "\<lparr>sipCore = \<lparr>ForceUser = None, registered = False, calls = []\<rparr>,
                 window = [(''sipcore-update'', 7)],
                 self = \<lparr>config = Some \<lparr>extension = Some ''100'', password = Some ''mypw'',
                                         display_name = Some ''Lobby''\<rparr>,
                         updateHandler = 7, isUpdatePending = False\<rparr>\<rparr>"]
  by (simp add: render_def)

end
